theory Spec2Isabelle
  imports Main
begin

section \<open>Data model\<close>

text \<open>
  The module under verification is \<^verbatim>\<open>src/routes/contacts.py\<close>: six route handlers that
  sit between the web framework and the contact repository. The handlers are embedded
  as HOL functions. The collaborators they call (repository, identity provider, rate
  limiter) are parameters of the model, so every theorem holds for each behaviour of
  the collaborators.
\<close>

text \<open>The three members of \<^verbatim>\<open>Role\<close> that the allow-lists of the module name.\<close>

datatype Role = admin | moderator | user

text \<open>
  Modelled from the spec: the \<^verbatim>\<open>User\<close> class of \<^verbatim>\<open>src.database.models\<close> is not part of
  the module. The spec gives it an identity and a role.
\<close>

record User =
  user_id :: nat
  role :: Role

text \<open>
  Modelled from the spec: the stored contact (\<^verbatim>\<open>ResponseContact\<close> on the way out) is
  declared outside the module. The spec gives it an identifier, names, an email and an
  owning user.
\<close>

record Contact =
  c_id :: int
  c_firstname :: string
  c_lastname :: string
  c_email :: string
  c_owner :: nat

text \<open>
  Modelled from the spec: the request bodies \<^verbatim>\<open>ContactModel\<close> (every field required) and
  \<^verbatim>\<open>ContactUpdateModel\<close> (every field optional) of \<^verbatim>\<open>src.schemas\<close>. The handlers read
  \<^verbatim>\<open>body.email\<close> of the first and nothing of the second.
\<close>

record ContactModel =
  cm_firstname :: string
  cm_lastname :: string
  cm_email :: string

record ContactUpdateModel =
  cu_firstname :: "string option"
  cu_lastname :: "string option"
  cu_email :: "string option"

text \<open>
  How a request ends when it does not succeed. \<open>HTTPException\<close> is the exception the
  handlers raise themselves, with its status code and detail. The other four are the
  failures of the collaborators, which run before a handler body.
\<close>

datatype failure =
    AuthenticationFailure
  | AuthorizationFailure
  | RateLimitFailure
  | ValidationFailure
  | HTTPException nat string

record 'a Response =
  status_code :: nat
  content :: "'a option"

section \<open>The repository, as the handlers see it\<close>

text \<open>
  \<^verbatim>\<open>src.repository.contacts\<close> is a parameter: a record with one function for each
  repository function the handlers await, arguments in the order of the call sites. The
  database session \<open>'db\<close> is passed in and handed back, since a repository call may
  change the store. A lookup that yields Python's \<^verbatim>\<open>None\<close> yields \<open>None\<close> here.
\<close>

record 'db repository_contacts =
  repository_get_contact_by_filter ::
    "'db \<Rightarrow> User \<Rightarrow> string option \<Rightarrow> string option \<Rightarrow> string option
      \<Rightarrow> Contact list option \<times> 'db"
  repository_get_contacts :: "'db \<Rightarrow> User \<Rightarrow> Contact list option \<times> 'db"
  repository_contacts_per_days :: "int \<Rightarrow> 'db \<Rightarrow> User \<Rightarrow> Contact list option \<times> 'db"
  repository_get_contact_by_id :: "int \<Rightarrow> 'db \<Rightarrow> User \<Rightarrow> Contact option \<times> 'db"
  repository_get_contact_by_email :: "string \<Rightarrow> 'db \<Rightarrow> User \<Rightarrow> Contact option \<times> 'db"
  repository_create_contact :: "ContactModel \<Rightarrow> 'db \<Rightarrow> User \<Rightarrow> Contact \<times> 'db"
  repository_update_contact ::
    "ContactUpdateModel \<Rightarrow> int \<Rightarrow> 'db \<Rightarrow> User \<Rightarrow> Contact option \<times> 'db"
  repository_remove_contact :: "int \<Rightarrow> 'db \<Rightarrow> Contact option \<times> 'db"

text \<open>
  Every awaited repository call is recorded with the arguments it was given (the session
  apart, which every call receives), in the order the calls are made.
\<close>

datatype repository_call =
    Call_get_contact_by_filter User "string option" "string option" "string option"
  | Call_get_contacts User
  | Call_contacts_per_days int User
  | Call_get_contact_by_id int User
  | Call_get_contact_by_email string User
  | Call_create_contact ContactModel User
  | Call_update_contact ContactUpdateModel int User
  | Call_remove_contact int

text \<open>
  What running a handler gives: the value it returns or the failure it raises, the
  session afterwards, and the repository calls it made.
\<close>

type_synonym ('a, 'db) outcome = "(failure + 'a) \<times> 'db \<times> repository_call list"

definition result :: "('a, 'db) outcome \<Rightarrow> failure + 'a" where
  "result out = fst out"

definition session :: "('a, 'db) outcome \<Rightarrow> 'db" where
  "session out = fst (snd out)"

definition calls :: "('a, 'db) outcome \<Rightarrow> repository_call list" where
  "calls out = snd (snd out)"

section \<open>The handlers\<close>

text \<open>
  Python's truth value of an optional query string: \<^verbatim>\<open>None\<close> and the empty string are
  false, every other string is true.
\<close>

definition truthy :: "string option \<Rightarrow> bool" where
  "truthy s = (case s of None \<Rightarrow> False | Some v \<Rightarrow> v \<noteq> [])"

text \<open>
  Lines 46 to 51 of \<^verbatim>\<open>get_contacts\<close>: the choice between the filtered and the
  unfiltered lookup.
\<close>

definition get_contacts_lookup ::
  "'db repository_contacts \<Rightarrow> 'db \<Rightarrow> string option \<Rightarrow> string option \<Rightarrow> string option
    \<Rightarrow> User \<Rightarrow> Contact list option \<times> 'db \<times> repository_call list" where
  "get_contacts_lookup repo db firstname lastname email current_user =
     (if truthy firstname \<or> truthy lastname \<or> truthy email
      then (let (contacts, db') =
                  repository_get_contact_by_filter repo db current_user firstname lastname email
            in (contacts, db', [Call_get_contact_by_filter current_user firstname lastname email]))
      else (let (contacts, db') = repository_get_contacts repo db current_user
            in (contacts, db', [Call_get_contacts current_user])))"

text \<open>
  \<^verbatim>\<open>get_contacts\<close>. \<^verbatim>\<open>not contacts\<close> holds of \<^verbatim>\<open>None\<close> and of the empty list.
\<close>

definition get_contacts ::
  "'db repository_contacts \<Rightarrow> 'db \<Rightarrow> string option \<Rightarrow> string option \<Rightarrow> string option
    \<Rightarrow> User \<Rightarrow> (Contact list, 'db) outcome" where
  "get_contacts repo db firstname lastname email current_user =
     (let (contacts, db', trace) = get_contacts_lookup repo db firstname lastname email current_user
      in (case contacts of
            None \<Rightarrow> (Inl (HTTPException 404 ''No contacts found''), db', trace)
          | Some [] \<Rightarrow> (Inl (HTTPException 404 ''No contacts found''), db', trace)
          | Some (c # cs) \<Rightarrow> (Inr (c # cs), db', trace)))"

text \<open>\<^verbatim>\<open>get_contacts_by_days\<close>: only \<^verbatim>\<open>contacts is None\<close> raises.\<close>

definition get_contacts_by_days ::
  "'db repository_contacts \<Rightarrow> int \<Rightarrow> 'db \<Rightarrow> User \<Rightarrow> (Contact list, 'db) outcome" where
  "get_contacts_by_days repo days db current_user =
     (let (contacts, db') = repository_contacts_per_days repo days db current_user;
          trace = [Call_contacts_per_days days current_user]
      in (case contacts of
            None \<Rightarrow> (Inl (HTTPException 404 ''Not Found''), db', trace)
          | Some cs \<Rightarrow> (Inr cs, db', trace)))"

definition get_contact_by_id ::
  "'db repository_contacts \<Rightarrow> int \<Rightarrow> 'db \<Rightarrow> User \<Rightarrow> (Contact, 'db) outcome" where
  "get_contact_by_id repo contact_id db current_user =
     (let (contact, db') = repository_get_contact_by_id repo contact_id db current_user;
          trace = [Call_get_contact_by_id contact_id current_user]
      in (case contact of
            None \<Rightarrow> (Inl (HTTPException 404 ''Not Found''), db', trace)
          | Some c \<Rightarrow> (Inr c, db', trace)))"

text \<open>
  \<^verbatim>\<open>create_contact\<close>: the lookup by email comes first; a contact found there raises 409
  before the repository's create is reached.
\<close>

definition create_contact ::
  "'db repository_contacts \<Rightarrow> ContactModel \<Rightarrow> 'db \<Rightarrow> User \<Rightarrow> (Contact, 'db) outcome" where
  "create_contact repo body db current_user =
     (let (contact, db') = repository_get_contact_by_email repo (cm_email body) db current_user;
          trace = [Call_get_contact_by_email (cm_email body) current_user]
      in (case contact of
            Some c \<Rightarrow>
              (Inl (HTTPException 409 (''Contact with email:'' @ cm_email body @ '' already exist!'')),
               db', trace)
          | None \<Rightarrow>
              (let (contact', db'') = repository_create_contact repo body db' current_user
               in (Inr contact', db'', trace @ [Call_create_contact body current_user]))))"

definition update_contact ::
  "'db repository_contacts \<Rightarrow> ContactUpdateModel \<Rightarrow> int \<Rightarrow> 'db \<Rightarrow> User
    \<Rightarrow> (Contact, 'db) outcome" where
  "update_contact repo body contact_id db current_user =
     (let (contact, db') = repository_update_contact repo body contact_id db current_user;
          trace = [Call_update_contact body contact_id current_user]
      in (case contact of
            None \<Rightarrow> (Inl (HTTPException 404 ''Not Found''), db', trace)
          | Some c \<Rightarrow> (Inr c, db', trace)))"

text \<open>
  \<^verbatim>\<open>remove_contact\<close>: \<^verbatim>\<open>current_user\<close> is a parameter of the handler, and the repository
  call is \<^verbatim>\<open>remove_contact(contact_id, db)\<close>.
\<close>

definition remove_contact ::
  "'db repository_contacts \<Rightarrow> int \<Rightarrow> 'db \<Rightarrow> User \<Rightarrow> (Contact, 'db) outcome" where
  "remove_contact repo contact_id db current_user =
     (let (contact, db') = repository_remove_contact repo contact_id db;
          trace = [Call_remove_contact contact_id]
      in (case contact of
            None \<Rightarrow> (Inl (HTTPException 404 ''Not Found''), db', trace)
          | Some c \<Rightarrow> (Inr c, db', trace)))"

section \<open>The routes\<close>

text \<open>The allow-lists of lines 16 to 19.\<close>

definition allowed_operation_get :: "Role list" where
  "allowed_operation_get = [admin, moderator, user]"

definition allowed_operation_create :: "Role list" where
  "allowed_operation_create = [admin, moderator, user]"

definition allowed_operation_update :: "Role list" where
  "allowed_operation_update = [admin, moderator, user]"

definition allowed_operation_remove :: "Role list" where
  "allowed_operation_remove = [admin]"

text \<open>
  Modelled from the spec: the call of a \<^verbatim>\<open>RoleAccess\<close> object (\<^verbatim>\<open>src.services.roles\<close>, not
  part of the module). The spec: given a user and an allow-list, it returns allow or
  deny; the user is allowed when the role is a member of the list.
\<close>

definition RoleAccess :: "Role list \<Rightarrow> User \<Rightarrow> bool" where
  "RoleAccess allowed_roles current_user = (role current_user \<in> set allowed_roles)"

text \<open>
  What the collaborators decide for one request: the user that
  \<^verbatim>\<open>auth_service.get_current_user\<close> resolves (\<open>None\<close> when the credential is refused),
  whether \<^verbatim>\<open>RateLimiter(times, seconds)\<close> finds the request within its quota, and the
  session \<^verbatim>\<open>get_db\<close> yields.
\<close>

record 'db request =
  get_current_user :: "User option"
  RateLimiter :: "nat \<Rightarrow> nat \<Rightarrow> bool"
  get_db :: 'db

text \<open>
  The \<^verbatim>\<open>dependencies\<close> list of a route decorator, \<^verbatim>\<open>[Depends(allowed), Depends(RateLimiter(
  times, seconds))]\<close>, in the order of the spec: identity, then role, then rate limit. A
  dependency that refuses the request ends it.
\<close>

definition dependencies :: "Role list \<Rightarrow> nat \<Rightarrow> nat \<Rightarrow> 'db request \<Rightarrow> failure + User" where
  "dependencies allowed times' seconds req =
     (case get_current_user req of
        None \<Rightarrow> Inl AuthenticationFailure
      | Some current_user \<Rightarrow>
          if \<not> RoleAccess allowed current_user then Inl AuthorizationFailure
          else if \<not> RateLimiter req times' seconds then Inl RateLimitFailure
          else Inr current_user)"

text \<open>The constraint \<^verbatim>\<open>Path(ge=1)\<close> on a path parameter.\<close>

definition Path_ge :: "int \<Rightarrow> int \<Rightarrow> bool" where
  "Path_ge bound v = (bound \<le> v)"

text \<open>
  The response the framework builds from a handler's return value. A route with no
  \<^verbatim>\<open>status_code\<close> answers 200. A response whose status is below 200 or one of 204, 205
  and 304 carries no body, whatever the handler returned.
\<close>

definition is_body_allowed_for_status_code :: "nat \<Rightarrow> bool" where
  "is_body_allowed_for_status_code code = (\<not> (code < 200 \<or> code \<in> {204, 205, 304}))"

definition respond :: "nat option \<Rightarrow> ('a, 'db) outcome \<Rightarrow> ('a Response, 'db) outcome" where
  "respond declared out =
     (let code = (case declared of None \<Rightarrow> 200 | Some c \<Rightarrow> c)
      in (case out of
            (Inl e, db', trace) \<Rightarrow> (Inl e, db', trace)
          | (Inr v, db', trace) \<Rightarrow>
              (Inr \<lparr>status_code = code,
                    content = (if is_body_allowed_for_status_code code then Some v else None)\<rparr>,
               db', trace)))"

text \<open>\<^verbatim>\<open>GET /contacts/\<close>\<close>

definition route_get_contacts ::
  "'db repository_contacts \<Rightarrow> 'db request \<Rightarrow> string option \<Rightarrow> string option \<Rightarrow> string option
    \<Rightarrow> (Contact list Response, 'db) outcome" where
  "route_get_contacts repo req firstname lastname email =
     (case dependencies allowed_operation_get 2 5 req of
        Inl e \<Rightarrow> (Inl e, get_db req, [])
      | Inr current_user \<Rightarrow>
          respond None (get_contacts repo (get_db req) firstname lastname email current_user))"

text \<open>\<^verbatim>\<open>GET /contacts/days/{days}\<close>: \<^verbatim>\<open>days: int\<close>, with no constraint.\<close>

definition route_get_contacts_by_days ::
  "'db repository_contacts \<Rightarrow> 'db request \<Rightarrow> int \<Rightarrow> (Contact list Response, 'db) outcome" where
  "route_get_contacts_by_days repo req days =
     (case dependencies allowed_operation_get 2 5 req of
        Inl e \<Rightarrow> (Inl e, get_db req, [])
      | Inr current_user \<Rightarrow>
          respond None (get_contacts_by_days repo days (get_db req) current_user))"

text \<open>\<^verbatim>\<open>GET /contacts/contact/{contact_id}\<close>\<close>

definition route_get_contact_by_id ::
  "'db repository_contacts \<Rightarrow> 'db request \<Rightarrow> int \<Rightarrow> (Contact Response, 'db) outcome" where
  "route_get_contact_by_id repo req contact_id =
     (case dependencies allowed_operation_get 2 5 req of
        Inl e \<Rightarrow> (Inl e, get_db req, [])
      | Inr current_user \<Rightarrow>
          if \<not> Path_ge 1 contact_id then (Inl ValidationFailure, get_db req, [])
          else respond None (get_contact_by_id repo contact_id (get_db req) current_user))"

text \<open>\<^verbatim>\<open>POST /contacts/\<close>, \<^verbatim>\<open>status_code=status.HTTP_201_CREATED\<close>\<close>

definition route_create_contact ::
  "'db repository_contacts \<Rightarrow> 'db request \<Rightarrow> ContactModel \<Rightarrow> (Contact Response, 'db) outcome" where
  "route_create_contact repo req body =
     (case dependencies allowed_operation_create 2 5 req of
        Inl e \<Rightarrow> (Inl e, get_db req, [])
      | Inr current_user \<Rightarrow>
          respond (Some 201) (create_contact repo body (get_db req) current_user))"

text \<open>\<^verbatim>\<open>PATCH /contacts/{contact_id}\<close>\<close>

definition route_update_contact ::
  "'db repository_contacts \<Rightarrow> 'db request \<Rightarrow> ContactUpdateModel \<Rightarrow> int
    \<Rightarrow> (Contact Response, 'db) outcome" where
  "route_update_contact repo req body contact_id =
     (case dependencies allowed_operation_update 2 5 req of
        Inl e \<Rightarrow> (Inl e, get_db req, [])
      | Inr current_user \<Rightarrow>
          if \<not> Path_ge 1 contact_id then (Inl ValidationFailure, get_db req, [])
          else respond None (update_contact repo body contact_id (get_db req) current_user))"

text \<open>\<^verbatim>\<open>DELETE /contacts/{contact_id}\<close>, \<^verbatim>\<open>status_code=status.HTTP_204_NO_CONTENT\<close>\<close>

definition route_remove_contact ::
  "'db repository_contacts \<Rightarrow> 'db request \<Rightarrow> int \<Rightarrow> (Contact Response, 'db) outcome" where
  "route_remove_contact repo req contact_id =
     (case dependencies allowed_operation_remove 2 5 req of
        Inl e \<Rightarrow> (Inl e, get_db req, [])
      | Inr current_user \<Rightarrow>
          if \<not> Path_ge 1 contact_id then (Inl ValidationFailure, get_db req, [])
          else respond (Some 204) (remove_contact repo contact_id (get_db req) current_user))"

section \<open>The rate limiter\<close>

text \<open>The six routes, as the keys of the rate limiter name them.\<close>

datatype route =
    Route_get_contacts
  | Route_get_contacts_by_days
  | Route_get_contact_by_id
  | Route_create_contact
  | Route_update_contact
  | Route_remove_contact

text \<open>
  Modelled from the spec: the rate limiter behind \<^verbatim>\<open>RateLimiter(times, seconds)\<close>, which is
  not part of the module. The spec: a sliding-window counter keyed by identity and route,
  which allows at most \<^verbatim>\<open>times\<close> invocations per window of \<^verbatim>\<open>seconds\<close> seconds. The
  counter is the log of the invocations it has allowed, each with its key and its time in
  seconds. A request is allowed when fewer than \<^verbatim>\<open>times\<close> logged invocations of its key
  lie within the last \<^verbatim>\<open>seconds\<close> seconds, and an allowed request is logged.
\<close>

type_synonym limiter = "((nat \<times> route) \<times> nat) list"

definition window_count :: "limiter \<Rightarrow> nat \<times> route \<Rightarrow> nat \<Rightarrow> nat \<Rightarrow> nat" where
  "window_count log key seconds now =
     length (filter (\<lambda>(k, t). k = key \<and> now < t + seconds) log)"

definition limiter_allows :: "limiter \<Rightarrow> nat \<times> route \<Rightarrow> nat \<Rightarrow> nat \<Rightarrow> nat \<Rightarrow> bool" where
  "limiter_allows log key times' seconds now = (window_count log key seconds now < times')"

definition limiter_hit :: "limiter \<Rightarrow> nat \<times> route \<Rightarrow> nat \<Rightarrow> nat \<Rightarrow> nat \<Rightarrow> limiter" where
  "limiter_hit log key times' seconds now =
     (if limiter_allows log key times' seconds now then (key, now) # log else log)"

text \<open>
  The request of user \<open>u\<close> to route \<open>rt\<close> at time \<open>now\<close>, when the limiter's log is
  \<open>log\<close>: the limiter decides by the key of that user and that route.
\<close>

definition request_at :: "limiter \<Rightarrow> route \<Rightarrow> nat \<Rightarrow> User \<Rightarrow> 'db \<Rightarrow> 'db request" where
  "request_at log rt now u db =
     \<lparr>get_current_user = Some u,
      RateLimiter = (\<lambda>times' seconds. limiter_allows log (user_id u, rt) times' seconds now),
      get_db = db\<rparr>"

text \<open>
  The third of three requests of one user to one route, at the times \<open>t1\<close>, \<open>t2\<close> and
  \<open>t3\<close>: the limiter has seen the first two, with the quota of the routes.
\<close>

definition third_request ::
  "limiter \<Rightarrow> route \<Rightarrow> User \<Rightarrow> nat \<Rightarrow> nat \<Rightarrow> nat \<Rightarrow> 'db \<Rightarrow> 'db request" where
  "third_request log rt u t1 t2 t3 db =
     request_at (limiter_hit (limiter_hit log (user_id u, rt) 2 5 t1) (user_id u, rt) 2 5 t2)
       rt t3 u db"

section \<open>Properties of outcomes\<close>

text \<open>A request that ends in the Not-Found condition: an \<open>HTTPException\<close> of status 404.\<close>

definition is_not_found :: "failure + 'a \<Rightarrow> bool" where
  "is_not_found r = (case r of Inl (HTTPException code detail) \<Rightarrow> code = 404 | _ \<Rightarrow> False)"

text \<open>The identity a repository call was given, if it was given one.\<close>

fun call_user :: "repository_call \<Rightarrow> User option" where
  "call_user (Call_get_contact_by_filter u f l e) = Some u"
| "call_user (Call_get_contacts u) = Some u"
| "call_user (Call_contacts_per_days d u) = Some u"
| "call_user (Call_get_contact_by_id i u) = Some u"
| "call_user (Call_get_contact_by_email e u) = Some u"
| "call_user (Call_create_contact b u) = Some u"
| "call_user (Call_update_contact b i u) = Some u"
| "call_user (Call_remove_contact i) = None"


section \<open>Two repositories to run the handlers on\<close>

text \<open>
  An in-memory repository over a list of contacts, each operation scoped to the owner
  except the removal, which the handler calls without one.
\<close>

definition owned_by :: "User \<Rightarrow> Contact \<Rightarrow> bool" where
  "owned_by u c = (c_owner c = user_id u)"

definition matches :: "string option \<Rightarrow> string \<Rightarrow> bool" where
  "matches f v = (case f of None \<Rightarrow> True | Some w \<Rightarrow> w = v)"

definition memory_repository :: "Contact list repository_contacts" where
  "memory_repository =
     \<lparr>repository_get_contact_by_filter = (\<lambda>db u f l e.
        (Some (filter (\<lambda>c. owned_by u c \<and> matches f (c_firstname c) \<and> matches l (c_lastname c)
                          \<and> matches e (c_email c)) db), db)),
      repository_get_contacts = (\<lambda>db u. (Some (filter (owned_by u) db), db)),
      repository_contacts_per_days = (\<lambda>days db u. (Some (filter (owned_by u) db), db)),
      repository_get_contact_by_id = (\<lambda>i db u.
        (find (\<lambda>c. c_id c = i \<and> owned_by u c) db, db)),
      repository_get_contact_by_email = (\<lambda>e db u.
        (find (\<lambda>c. c_email c = e \<and> owned_by u c) db, db)),
      repository_create_contact = (\<lambda>b db u.
        (let c = \<lparr>c_id = 1 + int (length db), c_firstname = cm_firstname b,
                   c_lastname = cm_lastname b, c_email = cm_email b, c_owner = user_id u\<rparr>
         in (c, db @ [c]))),
      repository_update_contact = (\<lambda>b i db u.
        (case find (\<lambda>c. c_id c = i \<and> owned_by u c) db of
           None \<Rightarrow> (None, db)
         | Some c \<Rightarrow>
             (let c' = c\<lparr>c_firstname := (case cu_firstname b of None \<Rightarrow> c_firstname c | Some v \<Rightarrow> v),
                         c_lastname := (case cu_lastname b of None \<Rightarrow> c_lastname c | Some v \<Rightarrow> v),
                         c_email := (case cu_email b of None \<Rightarrow> c_email c | Some v \<Rightarrow> v)\<rparr>
              in (Some c', map (\<lambda>x. if c_id x = i then c' else x) db)))),
      repository_remove_contact = (\<lambda>i db.
        (find (\<lambda>c. c_id c = i) db, filter (\<lambda>c. c_id c \<noteq> i) db))\<rparr>"

text \<open>A repository whose every lookup yields \<open>None\<close>.\<close>

definition absent_repository :: "unit repository_contacts" where
  "absent_repository =
     \<lparr>repository_get_contact_by_filter = (\<lambda>db u f l e. (None, db)),
      repository_get_contacts = (\<lambda>db u. (None, db)),
      repository_contacts_per_days = (\<lambda>days db u. (None, db)),
      repository_get_contact_by_id = (\<lambda>i db u. (None, db)),
      repository_get_contact_by_email = (\<lambda>e db u. (None, db)),
      repository_create_contact = (\<lambda>b db u.
        (\<lparr>c_id = 1, c_firstname = cm_firstname b, c_lastname = cm_lastname b,
          c_email = cm_email b, c_owner = user_id u\<rparr>, db)),
      repository_update_contact = (\<lambda>b i db u. (None, db)),
      repository_remove_contact = (\<lambda>i db. (None, db))\<rparr>"

text \<open>
  The in-memory repository with a recency lookup that yields \<open>None\<close> for a negative
  number of days.
\<close>

definition strict_days_repository :: "Contact list repository_contacts" where
  "strict_days_repository =
     memory_repository\<lparr>repository_contacts_per_days := (\<lambda>days db u.
        (if days < 0 then None else Some (filter (owned_by u) db), db))\<rparr>"

text \<open>Two users, a contact of each, and requests of each role that every gate admits.\<close>

definition alice :: User where
  "alice = \<lparr>user_id = 1, role = user\<rparr>"

definition root :: User where
  "root = \<lparr>user_id = 2, role = admin\<rparr>"

definition carol :: Contact where
  "carol = \<lparr>c_id = 1, c_firstname = ''Carol'', c_lastname = ''Jones'',
             c_email = ''carol@example.com'', c_owner = 1\<rparr>"

definition dave :: Contact where
  "dave = \<lparr>c_id = 2, c_firstname = ''Dave'', c_lastname = ''Smith'',
            c_email = ''dave@example.com'', c_owner = 2\<rparr>"

definition request_of :: "User \<Rightarrow> 'db \<Rightarrow> 'db request" where
  "request_of u db = \<lparr>get_current_user = Some u, RateLimiter = (\<lambda>times' seconds. True), get_db = db\<rparr>"

text \<open>A moderator, two bodies for a create (one with the email of a stored contact) and
  a partial update.\<close>

definition mallory :: User where
  "mallory = \<lparr>user_id = 3, role = moderator\<rparr>"

definition carol_again :: ContactModel where
  "carol_again = \<lparr>cm_firstname = ''Caroline'', cm_lastname = ''Jones'', cm_email = ''carol@example.com''\<rparr>"

definition erin :: ContactModel where
  "erin = \<lparr>cm_firstname = ''Erin'', cm_lastname = ''Lee'', cm_email = ''erin@example.com''\<rparr>"

definition rename :: ContactUpdateModel where
  "rename = \<lparr>cu_firstname = None, cu_lastname = Some ''X'', cu_email = None\<rparr>"

section \<open>Auxiliary facts\<close>

lemma dependencies_request_of:
  "RoleAccess allowed u \<Longrightarrow> dependencies allowed t s (request_of u db) = Inr u"
  by (simp add: dependencies_def request_of_def)

lemma get_db_request_of: "get_db (request_of u db) = db"
  by (simp add: request_of_def)

lemma respond_Inl: "respond declared (Inl e, db, trace) = (Inl e, db, trace)"
  by (simp add: respond_def)

lemma respond_200: "respond None (Inr v, db, trace) = (Inr \<lparr>status_code = 200, content = Some v\<rparr>, db, trace)"
  by (simp add: respond_def is_body_allowed_for_status_code_def)

lemma respond_201: "respond (Some 201) (Inr v, db, trace) = (Inr \<lparr>status_code = 201, content = Some v\<rparr>, db, trace)"
  by (simp add: respond_def is_body_allowed_for_status_code_def)

lemma respond_204: "respond (Some 204) (Inr v, db, trace) = (Inr \<lparr>status_code = 204, content = None\<rparr>, db, trace)"
  by (simp add: respond_def is_body_allowed_for_status_code_def)

lemma dependencies_admin:
  "dependencies allowed_operation_remove 2 5 (request_of root db) = Inr root"
  by (simp add: dependencies_request_of RoleAccess_def allowed_operation_remove_def root_def)

lemma dependencies_alice_get:
  "dependencies allowed_operation_get 2 5 (request_of alice db) = Inr alice"
  by (simp add: dependencies_request_of RoleAccess_def allowed_operation_get_def alice_def)

lemma dependencies_alice_create:
  "dependencies allowed_operation_create 2 5 (request_of alice db) = Inr alice"
  by (simp add: dependencies_request_of RoleAccess_def allowed_operation_create_def alice_def)

lemma calls_get_contacts:
  "calls (get_contacts repo db firstname lastname email current_user)
     = (if truthy firstname \<or> truthy lastname \<or> truthy email
        then [Call_get_contact_by_filter current_user firstname lastname email]
        else [Call_get_contacts current_user])"
  by (simp add: get_contacts_def get_contacts_lookup_def calls_def
      split: prod.splits option.splits list.splits)

lemma calls_get_contacts_by_days:
  "calls (get_contacts_by_days repo days db current_user) = [Call_contacts_per_days days current_user]"
  by (simp add: get_contacts_by_days_def calls_def Let_def split: prod.splits option.splits)

lemma calls_get_contact_by_id:
  "calls (get_contact_by_id repo contact_id db current_user)
     = [Call_get_contact_by_id contact_id current_user]"
  by (simp add: get_contact_by_id_def calls_def Let_def split: prod.splits option.splits)

lemma calls_create_contact:
  "calls (create_contact repo body db current_user)
     = (case fst (repository_get_contact_by_email repo (cm_email body) db current_user) of
          Some c \<Rightarrow> [Call_get_contact_by_email (cm_email body) current_user]
        | None \<Rightarrow> [Call_get_contact_by_email (cm_email body) current_user,
                    Call_create_contact body current_user])"
  by (simp add: create_contact_def calls_def Let_def split: prod.splits option.splits)

lemma calls_update_contact:
  "calls (update_contact repo body contact_id db current_user)
     = [Call_update_contact body contact_id current_user]"
  by (simp add: update_contact_def calls_def Let_def split: prod.splits option.splits)

lemma calls_remove_contact:
  "calls (remove_contact repo contact_id db current_user) = [Call_remove_contact contact_id]"
  by (simp add: remove_contact_def calls_def Let_def split: prod.splits option.splits)

lemma result_respond_Inr:
  "result out = Inr v \<Longrightarrow> \<exists>r. result (respond declared out) = Inr r"
  by (cases out) (simp add: respond_def result_def Let_def)

lemma calls_respond: "calls (respond declared out) = calls out"
  by (cases out) (simp add: respond_def calls_def Let_def split: sum.splits)



lemma route_get_contact_by_id_rejected:
  "contact_id < 1 \<Longrightarrow>
     route_get_contact_by_id repo req contact_id
       = (case dependencies allowed_operation_get 2 5 req of
            Inl e \<Rightarrow> (Inl e, get_db req, [])
          | Inr u \<Rightarrow> (Inl ValidationFailure, get_db req, []))"
  by (simp add: route_get_contact_by_id_def Path_ge_def split: sum.splits)

lemma route_update_contact_rejected:
  "contact_id < 1 \<Longrightarrow>
     route_update_contact repo req body contact_id
       = (case dependencies allowed_operation_update 2 5 req of
            Inl e \<Rightarrow> (Inl e, get_db req, [])
          | Inr u \<Rightarrow> (Inl ValidationFailure, get_db req, []))"
  by (simp add: route_update_contact_def Path_ge_def split: sum.splits)

lemma route_remove_contact_rejected:
  "contact_id < 1 \<Longrightarrow>
     route_remove_contact repo req contact_id
       = (case dependencies allowed_operation_remove 2 5 req of
            Inl e \<Rightarrow> (Inl e, get_db req, [])
          | Inr u \<Rightarrow> (Inl ValidationFailure, get_db req, []))"
  by (simp add: route_remove_contact_def Path_ge_def split: sum.splits)

lemma dependencies_not_HTTPException:
  "dependencies allowed t s req \<noteq> Inl (HTTPException code detail)"
  by (simp add: dependencies_def split: option.splits)

lemma gate_outcome:
  "out = (case dependencies allowed t s req of
            Inl e \<Rightarrow> (Inl e, get_db req, [])
          | Inr u \<Rightarrow> (Inl ValidationFailure, get_db req, []))
   \<Longrightarrow> calls out = [] \<and> session out = get_db req \<and> isl (result out)
       \<and> \<not> is_not_found (result out)
       \<and> (dependencies allowed t s req = Inr current_user \<longrightarrow> result out = Inl ValidationFailure)"
  using dependencies_not_HTTPException [of allowed t s req]
  by (auto simp: calls_def session_def result_def is_not_found_def
      split: sum.splits failure.splits)

lemma dependencies_admin_get:
  "dependencies allowed_operation_get 2 5 (request_of root db) = Inr root"
  by (simp add: dependencies_request_of RoleAccess_def allowed_operation_get_def root_def)

lemma dependencies_admin_update:
  "dependencies allowed_operation_update 2 5 (request_of root db) = Inr root"
  by (simp add: dependencies_request_of RoleAccess_def allowed_operation_update_def root_def)

lemma result_respond_not_validation:
  "result out \<noteq> Inl ValidationFailure \<Longrightarrow> result (respond declared out) \<noteq> Inl ValidationFailure"
  by (cases out) (auto simp: respond_def result_def Let_def split: sum.splits)

lemma result_get_contacts_by_days_not_validation:
  "result (get_contacts_by_days repo days db current_user) \<noteq> Inl ValidationFailure"
  by (simp add: get_contacts_by_days_def result_def Let_def split: prod.splits option.splits)

lemma dependencies_not_validation:
  "dependencies allowed t s req \<noteq> Inl ValidationFailure"
  by (simp add: dependencies_def split: option.splits)

lemma dependencies_admitted:
  "get_current_user req = Some u \<Longrightarrow> RateLimiter req times' seconds \<Longrightarrow>
     RoleAccess allowed u \<Longrightarrow> dependencies allowed times' seconds req = Inr u"
  by (simp add: dependencies_def)

lemma dependencies_rate_limited:
  "get_current_user req = Some u \<Longrightarrow> \<not> RateLimiter req times' seconds \<Longrightarrow>
     dependencies allowed times' seconds req
       = (if RoleAccess allowed u then Inl RateLimitFailure else Inl AuthorizationFailure)"
  by (simp add: dependencies_def)

lemma RoleAccess_every_role:
  "RoleAccess allowed_operation_get u" "RoleAccess allowed_operation_create u"
  "RoleAccess allowed_operation_update u"
  by (cases "role u"; simp add: RoleAccess_def allowed_operation_get_def
      allowed_operation_create_def allowed_operation_update_def)+

lemma RoleAccess_remove: "RoleAccess allowed_operation_remove u \<longleftrightarrow> role u = admin"
  by (cases "role u") (simp_all add: RoleAccess_def allowed_operation_remove_def)

lemma result_respond_Inl_iff:
  "result (respond declared out) = Inl e \<longleftrightarrow> result out = Inl e"
  by (cases out) (auto simp: respond_def result_def Let_def split: sum.splits)

lemma handlers_never_refuse_role:
  "result (get_contacts repo db firstname lastname email u) \<noteq> Inl AuthorizationFailure"
  "result (get_contacts_by_days repo days db u) \<noteq> Inl AuthorizationFailure"
  "result (get_contact_by_id repo contact_id db u) \<noteq> Inl AuthorizationFailure"
  "result (create_contact repo body db u) \<noteq> Inl AuthorizationFailure"
  "result (update_contact repo ubody contact_id db u) \<noteq> Inl AuthorizationFailure"
  by (simp_all add: get_contacts_def get_contacts_lookup_def get_contacts_by_days_def
      get_contact_by_id_def create_contact_def update_contact_def result_def Let_def
      split: prod.splits option.splits list.splits)

lemma window_count_hit:
  "limiter_allows log key times' seconds t \<Longrightarrow> now < t + seconds \<Longrightarrow>
     window_count (limiter_hit log key times' seconds t) key seconds now
       = Suc (window_count log key seconds now)"
  by (simp add: limiter_hit_def window_count_def)

lemma third_refused:
  assumes "t1 \<le> t2" "t2 \<le> t3" "t3 < t1 + 5"
    and "limiter_allows log key 2 5 t1"
    and "limiter_allows (limiter_hit log key 2 5 t1) key 2 5 t2"
  shows "\<not> limiter_allows (limiter_hit (limiter_hit log key 2 5 t1) key 2 5 t2) key 2 5 t3"
proof -
  have "window_count (limiter_hit (limiter_hit log key 2 5 t1) key 2 5 t2) key 5 t3
          = Suc (window_count (limiter_hit log key 2 5 t1) key 5 t3)"
    using assms by (intro window_count_hit) simp_all
  also have "\<dots> = Suc (Suc (window_count log key 5 t3))"
    using assms by (simp add: window_count_hit)
  finally show ?thesis
    by (simp add: limiter_allows_def)
qed

lemma fresh_admits_two:
  assumes "window_count log key 5 t1 = 0" "t1 \<le> t2" "t2 < t1 + 5"
  shows "limiter_allows log key 2 5 t1 \<and> limiter_allows (limiter_hit log key 2 5 t1) key 2 5 t2"
proof -
  have first: "limiter_allows log key 2 5 t1"
    using assms by (simp add: limiter_allows_def)
  have "window_count log key 5 t2 = 0"
    using assms(1,2) by (auto simp: window_count_def filter_empty_conv)
  with window_count_hit [OF first, of t2] assms
  show ?thesis using first by (simp add: limiter_allows_def)
qed

lemma get_current_user_third_request:
  "get_current_user (third_request log rt u t1 t2 t3 db) = Some u"
  by (simp add: third_request_def request_at_def)

lemma get_db_third_request: "get_db (third_request log rt u t1 t2 t3 db) = db"
  by (simp add: third_request_def request_at_def)

lemma RateLimiter_third_request:
  "RateLimiter (third_request log rt u t1 t2 t3 db) times' seconds
     = limiter_allows (limiter_hit (limiter_hit log (user_id u, rt) 2 5 t1) (user_id u, rt) 2 5 t2)
         (user_id u, rt) times' seconds t3"
  by (simp add: third_request_def request_at_def)

text \<open>
  Each route passes \<^verbatim>\<open>times=2, seconds=5\<close> to the rate limiter, and a request the limiter
  refuses ends before the handler: no repository call is made.
\<close>

lemma rate_limit_refusal_ends_request:
  assumes "get_current_user req = Some current_user" and "\<not> RateLimiter req 2 5"
  shows "calls (route_get_contacts repo req firstname lastname email) = []"
    and "calls (route_get_contacts_by_days repo req days) = []"
    and "calls (route_get_contact_by_id repo req contact_id) = []"
    and "calls (route_create_contact repo req body) = []"
    and "calls (route_update_contact repo req ubody contact_id) = []"
    and "calls (route_remove_contact repo req contact_id) = []"
  using assms
  by (simp_all add: route_get_contacts_def route_get_contacts_by_days_def
      route_get_contact_by_id_def route_create_contact_def route_update_contact_def
      route_remove_contact_def dependencies_def calls_def)

section \<open>The claims\<close>

text \<open>
  Claim C1. In the list-contacts operation, for a caller the dependencies admit: when
  the delegated lookup (filtered or unfiltered, whichever the filters select) returns the
  empty sequence, the handler raises the 404 exception \<^verbatim>\<open>No contacts found\<close>, and so
  the route ends in that failure and not in a 200 response with an empty list.
\<close>

theorem get_contacts_empty_is_not_found:
  assumes deps: "dependencies allowed_operation_get 2 5 req = Inr current_user"
    and empty: "fst (get_contacts_lookup repo (get_db req) firstname lastname email current_user) = Some []"
  shows "result (get_contacts repo (get_db req) firstname lastname email current_user)
           = Inl (HTTPException 404 ''No contacts found'')
       \<and> result (route_get_contacts repo req firstname lastname email)
           = Inl (HTTPException 404 ''No contacts found'')"
proof -
  obtain db' trace where
    lookup: "get_contacts_lookup repo (get_db req) firstname lastname email current_user = (Some [], db', trace)"
    using empty by (cases "get_contacts_lookup repo (get_db req) firstname lastname email current_user") auto
  have handler: "get_contacts repo (get_db req) firstname lastname email current_user
                   = (Inl (HTTPException 404 ''No contacts found''), db', trace)"
    by (simp add: get_contacts_def lookup)
  show ?thesis
    by (simp add: route_get_contacts_def deps handler respond_Inl result_def)
qed

text \<open>A run: a user with no contact of their own lists their contacts.\<close>

theorem get_contacts_empty_is_not_found_witness:
  "result (route_get_contacts memory_repository (request_of alice [dave]) None None None)
     = Inl (HTTPException 404 ''No contacts found'')"
proof -
  have deps: "dependencies allowed_operation_get 2 5 (request_of alice [dave]) = Inr alice"
    by (simp add: dependencies_request_of RoleAccess_def allowed_operation_get_def alice_def)
  have empty: "fst (get_contacts_lookup memory_repository (get_db (request_of alice [dave])) None None None alice) = Some []"
    by (simp add: get_contacts_lookup_def memory_repository_def truthy_def get_db_request_of
        owned_by_def alice_def dave_def)
  from get_contacts_empty_is_not_found [OF deps empty] show ?thesis by simp
qed

text \<open>
  Claim C2. In the list-by-recency operation, for a caller the dependencies admit
  and every value of \<^verbatim>\<open>days\<close>: the route ends in Not-Found exactly when the delegated
  lookup returns \<^verbatim>\<open>None\<close> (the failure is then the 404 exception \<^verbatim>\<open>Not Found\<close>), and
  an empty sequence from the lookup is answered with status 200 and the empty list.
\<close>

theorem get_contacts_by_days_not_found_iff_none:
  assumes deps: "dependencies allowed_operation_get 2 5 req = Inr current_user"
  shows "(is_not_found (result (route_get_contacts_by_days repo req days))
            \<longleftrightarrow> fst (repository_contacts_per_days repo days (get_db req) current_user) = None)
       \<and> (fst (repository_contacts_per_days repo days (get_db req) current_user) = None
            \<longrightarrow> result (route_get_contacts_by_days repo req days)
                  = Inl (HTTPException 404 ''Not Found''))
       \<and> (fst (repository_contacts_per_days repo days (get_db req) current_user) = Some []
            \<longrightarrow> result (route_get_contacts_by_days repo req days)
                  = Inr \<lparr>status_code = 200, content = Some []\<rparr>)"
proof (cases "repository_contacts_per_days repo days (get_db req) current_user")
  case (Pair contacts db')
  show ?thesis
  proof (cases contacts)
    case None
    with Pair show ?thesis
      by (simp add: route_get_contacts_by_days_def deps get_contacts_by_days_def respond_Inl
          result_def is_not_found_def)
  next
    case (Some cs)
    with Pair show ?thesis
      by (simp add: route_get_contacts_by_days_def deps get_contacts_by_days_def respond_200
          result_def is_not_found_def)
  qed
qed

text \<open>Two runs: a lookup that finds no row, and a lookup that yields \<^verbatim>\<open>None\<close>.\<close>

theorem get_contacts_by_days_not_found_iff_none_witness:
  "result (route_get_contacts_by_days memory_repository (request_of alice [dave]) 7)
     = Inr \<lparr>status_code = 200, content = Some []\<rparr>
   \<and> \<not> is_not_found (result (route_get_contacts_by_days memory_repository (request_of alice [dave]) 7))
   \<and> result (route_get_contacts_by_days absent_repository (request_of alice ()) 7)
     = Inl (HTTPException 404 ''Not Found'')"
proof -
  have some: "fst (repository_contacts_per_days memory_repository 7 (get_db (request_of alice [dave])) alice) = Some []"
    by (simp add: memory_repository_def get_db_request_of owned_by_def alice_def dave_def)
  have none: "fst (repository_contacts_per_days absent_repository 7 (get_db (request_of alice ())) alice) = None"
    by (simp add: absent_repository_def)
  from get_contacts_by_days_not_found_iff_none [OF dependencies_alice_get, of memory_repository "[dave]" 7]
    get_contacts_by_days_not_found_iff_none [OF dependencies_alice_get, of absent_repository "()" 7]
    some none
  show ?thesis by (simp add: is_not_found_def)
qed

text \<open>
  Claim C3. In the create-contact operation, for a caller the dependencies admit and
  every payload: when the lookup by the payload's email finds a contact of the caller,
  the route fails with the 409 exception whose detail contains that email, the only
  repository call made is that lookup, and the session is the one the lookup left (the
  repository's create is not called); when the lookup finds none, the repository's create
  is called with the payload and the caller, and the contact it returns is answered with
  status 201.
\<close>

theorem create_contact_conflict_or_created:
  assumes deps: "dependencies allowed_operation_create 2 5 req = Inr current_user"
  shows "(repository_get_contact_by_email repo (cm_email body) (get_db req) current_user = (Some c, db')
            \<longrightarrow> route_create_contact repo req body
                 = (Inl (HTTPException 409
                          (''Contact with email:'' @ cm_email body @ '' already exist!'')),
                    db', [Call_get_contact_by_email (cm_email body) current_user]))
       \<and> (repository_get_contact_by_email repo (cm_email body) (get_db req) current_user = (None, db')
            \<longrightarrow> route_create_contact repo req body
                 = (Inr \<lparr>status_code = 201,
                         content = Some (fst (repository_create_contact repo body db' current_user))\<rparr>,
                    snd (repository_create_contact repo body db' current_user),
                    [Call_get_contact_by_email (cm_email body) current_user,
                     Call_create_contact body current_user]))"
  by (simp add: route_create_contact_def deps create_contact_def respond_Inl respond_201
      split: prod.splits)

text \<open>Two runs on a store that holds one contact of the caller: a payload with its email, and a payload with a new email.\<close>

theorem create_contact_conflict_or_created_witness:
  "route_create_contact memory_repository (request_of alice [carol]) carol_again
     = (Inl (HTTPException 409 ''Contact with email:carol@example.com already exist!''),
        [carol], [Call_get_contact_by_email ''carol@example.com'' alice])
   \<and> route_create_contact memory_repository (request_of alice [carol]) erin
     = (Inr \<lparr>status_code = 201,
             content = Some \<lparr>c_id = 2, c_firstname = ''Erin'', c_lastname = ''Lee'',
                             c_email = ''erin@example.com'', c_owner = 1\<rparr>\<rparr>,
        [carol, \<lparr>c_id = 2, c_firstname = ''Erin'', c_lastname = ''Lee'',
                 c_email = ''erin@example.com'', c_owner = 1\<rparr>],
        [Call_get_contact_by_email ''erin@example.com'' alice, Call_create_contact erin alice])"
proof -
  have found: "repository_get_contact_by_email memory_repository (cm_email carol_again)
                 (get_db (request_of alice [carol])) alice = (Some carol, [carol])"
    by (simp add: memory_repository_def get_db_request_of owned_by_def alice_def carol_def
        carol_again_def)
  have missing: "repository_get_contact_by_email memory_repository (cm_email erin)
                 (get_db (request_of alice [carol])) alice = (None, [carol])"
    by (simp add: memory_repository_def get_db_request_of owned_by_def alice_def carol_def
        erin_def)
  have created: "repository_create_contact memory_repository erin [carol] alice
                   = (\<lparr>c_id = 2, c_firstname = ''Erin'', c_lastname = ''Lee'',
                        c_email = ''erin@example.com'', c_owner = 1\<rparr>,
                      [carol, \<lparr>c_id = 2, c_firstname = ''Erin'', c_lastname = ''Lee'',
                        c_email = ''erin@example.com'', c_owner = 1\<rparr>])"
    by (simp add: memory_repository_def alice_def erin_def Let_def)
  from create_contact_conflict_or_created [OF dependencies_alice_create,
      of memory_repository carol_again "[carol]" carol "[carol]"] found
  have first: "route_create_contact memory_repository (request_of alice [carol]) carol_again
     = (Inl (HTTPException 409 ''Contact with email:carol@example.com already exist!''),
        [carol], [Call_get_contact_by_email ''carol@example.com'' alice])"
    by (simp add: carol_again_def)
  from create_contact_conflict_or_created [OF dependencies_alice_create,
      of memory_repository erin "[carol]" carol "[carol]"] missing created
  have second: "route_create_contact memory_repository (request_of alice [carol]) erin
     = (Inr \<lparr>status_code = 201,
             content = Some \<lparr>c_id = 2, c_firstname = ''Erin'', c_lastname = ''Lee'',
                             c_email = ''erin@example.com'', c_owner = 1\<rparr>\<rparr>,
        [carol, \<lparr>c_id = 2, c_firstname = ''Erin'', c_lastname = ''Lee'',
                 c_email = ''erin@example.com'', c_owner = 1\<rparr>],
        [Call_get_contact_by_email ''erin@example.com'' alice, Call_create_contact erin alice])"
    by (simp add: erin_def)
  from first second show ?thesis by simp
qed

text \<open>
  Claim C4. In the delete-contact operation, for a caller the dependencies admit and
  every \<^verbatim>\<open>contact_id\<close> of at least 1: when the repository removes a contact, the response
  has status 204 and no content; when the repository finds no such contact, the route
  fails with the 404 exception \<^verbatim>\<open>Not Found\<close>.
\<close>

theorem remove_contact_no_content_or_not_found:
  assumes deps: "dependencies allowed_operation_remove 2 5 req = Inr current_user"
    and valid: "1 \<le> contact_id"
  shows "(repository_remove_contact repo contact_id (get_db req) = (Some c, db')
            \<longrightarrow> route_remove_contact repo req contact_id
                 = (Inr \<lparr>status_code = 204, content = None\<rparr>, db', [Call_remove_contact contact_id]))
       \<and> (repository_remove_contact repo contact_id (get_db req) = (None, db')
            \<longrightarrow> route_remove_contact repo req contact_id
                 = (Inl (HTTPException 404 ''Not Found''), db', [Call_remove_contact contact_id]))"
  using valid
  by (simp add: route_remove_contact_def deps Path_ge_def remove_contact_def respond_Inl respond_204)

text \<open>Two runs: deleting a stored contact, and deleting it once more.\<close>

theorem remove_contact_no_content_or_not_found_witness:
  "route_remove_contact memory_repository (request_of root [carol, dave]) 1
     = (Inr \<lparr>status_code = 204, content = None\<rparr>, [dave], [Call_remove_contact 1])
   \<and> route_remove_contact memory_repository (request_of root [dave]) 1
     = (Inl (HTTPException 404 ''Not Found''), [dave], [Call_remove_contact 1])"
proof -
  have there: "repository_remove_contact memory_repository 1 (get_db (request_of root [carol, dave]))
                 = (Some carol, [dave])"
    by (simp add: memory_repository_def get_db_request_of carol_def dave_def)
  have gone: "repository_remove_contact memory_repository 1 (get_db (request_of root [dave]))
                 = (None, [dave])"
    by (simp add: memory_repository_def get_db_request_of dave_def)
  have valid: "(1::int) \<le> 1" by simp
  from remove_contact_no_content_or_not_found [OF dependencies_admin valid,
      of memory_repository "[carol, dave]" carol "[dave]"] there
  have first: "route_remove_contact memory_repository (request_of root [carol, dave]) 1
     = (Inr \<lparr>status_code = 204, content = None\<rparr>, [dave], [Call_remove_contact 1])"
    by simp
  from remove_contact_no_content_or_not_found [OF dependencies_admin valid,
      of memory_repository "[dave]" carol "[dave]"] gone
  have second: "route_remove_contact memory_repository (request_of root [dave]) 1
     = (Inl (HTTPException 404 ''Not Found''), [dave], [Call_remove_contact 1])"
    by simp
  from first second show ?thesis by simp
qed

text \<open>
  Claim C5. A caller whose role is \<open>user\<close> or \<open>moderator\<close> is denied by the role
  gate of the delete operation, whose allow-list holds \<open>admin\<close> alone: the delete route
  ends in the authorization failure with no repository call. The get, create and update
  operations admit every role: for a caller of whichever role that the identity provider
  resolves and the rate limiter allows, the dependencies of these operations pass, each
  route runs its handler for that caller, and none ends in the authorization failure.
\<close>

theorem remove_denied_to_user_and_moderator:
  "(role current_user = user \<or> role current_user = moderator
      \<longrightarrow> \<not> RoleAccess allowed_operation_remove current_user
          \<and> (get_current_user req = Some current_user
                \<longrightarrow> route_remove_contact repo req contact_id
                     = (Inl AuthorizationFailure, get_db req, [])))
   \<and> (RoleAccess allowed_operation_remove current_user \<longleftrightarrow> role current_user = admin)
   \<and> RoleAccess allowed_operation_get current_user
   \<and> RoleAccess allowed_operation_create current_user
   \<and> RoleAccess allowed_operation_update current_user
   \<and> (get_current_user req = Some current_user \<and> RateLimiter req 2 5
        \<longrightarrow> dependencies allowed_operation_get 2 5 req = Inr current_user
          \<and> dependencies allowed_operation_create 2 5 req = Inr current_user
          \<and> dependencies allowed_operation_update 2 5 req = Inr current_user
          \<and> route_get_contacts repo req firstname lastname email
              = respond None (get_contacts repo (get_db req) firstname lastname email current_user)
          \<and> route_get_contacts_by_days repo req days
              = respond None (get_contacts_by_days repo days (get_db req) current_user)
          \<and> (1 \<le> contact_id
                \<longrightarrow> route_get_contact_by_id repo req contact_id
                     = respond None (get_contact_by_id repo contact_id (get_db req) current_user))
          \<and> route_create_contact repo req body
              = respond (Some 201) (create_contact repo body (get_db req) current_user)
          \<and> (1 \<le> contact_id
                \<longrightarrow> route_update_contact repo req ubody contact_id
                     = respond None
                         (update_contact repo ubody contact_id (get_db req) current_user))
          \<and> result (route_get_contacts repo req firstname lastname email)
              \<noteq> Inl AuthorizationFailure
          \<and> result (route_get_contacts_by_days repo req days) \<noteq> Inl AuthorizationFailure
          \<and> result (route_get_contact_by_id repo req contact_id) \<noteq> Inl AuthorizationFailure
          \<and> result (route_create_contact repo req body) \<noteq> Inl AuthorizationFailure
          \<and> result (route_update_contact repo req ubody contact_id) \<noteq> Inl AuthorizationFailure)"
proof -
  have denied: "\<not> RoleAccess allowed_operation_remove current_user
      \<and> (get_current_user req = Some current_user
            \<longrightarrow> route_remove_contact repo req contact_id
                 = (Inl AuthorizationFailure, get_db req, []))"
    if "role current_user = user \<or> role current_user = moderator"
    using that by (auto simp: RoleAccess_remove route_remove_contact_def dependencies_def)
  have admitted:
    "dependencies allowed_operation_get 2 5 req = Inr current_user"
    "dependencies allowed_operation_create 2 5 req = Inr current_user"
    "dependencies allowed_operation_update 2 5 req = Inr current_user"
    if "get_current_user req = Some current_user" and "RateLimiter req 2 5"
    using that by (simp_all add: dependencies_admitted RoleAccess_every_role)
  have routes:
    "route_get_contacts repo req firstname lastname email
       = respond None (get_contacts repo (get_db req) firstname lastname email current_user)"
    "route_get_contacts_by_days repo req days
       = respond None (get_contacts_by_days repo days (get_db req) current_user)"
    "1 \<le> contact_id \<longrightarrow> route_get_contact_by_id repo req contact_id
       = respond None (get_contact_by_id repo contact_id (get_db req) current_user)"
    "route_create_contact repo req body
       = respond (Some 201) (create_contact repo body (get_db req) current_user)"
    "1 \<le> contact_id \<longrightarrow> route_update_contact repo req ubody contact_id
       = respond None (update_contact repo ubody contact_id (get_db req) current_user)"
    if "get_current_user req = Some current_user" and "RateLimiter req 2 5"
    using admitted [OF that]
    by (simp_all add: route_get_contacts_def route_get_contacts_by_days_def
        route_get_contact_by_id_def route_create_contact_def route_update_contact_def Path_ge_def)
  have not_refused:
    "result (route_get_contacts repo req firstname lastname email) \<noteq> Inl AuthorizationFailure"
    "result (route_get_contacts_by_days repo req days) \<noteq> Inl AuthorizationFailure"
    "result (route_get_contact_by_id repo req contact_id) \<noteq> Inl AuthorizationFailure"
    "result (route_create_contact repo req body) \<noteq> Inl AuthorizationFailure"
    "result (route_update_contact repo req ubody contact_id) \<noteq> Inl AuthorizationFailure"
    if "get_current_user req = Some current_user" and "RateLimiter req 2 5"
    using admitted [OF that]
    by (simp_all add: route_get_contacts_def route_get_contacts_by_days_def
        route_get_contact_by_id_def route_create_contact_def route_update_contact_def
        result_respond_Inl_iff handlers_never_refuse_role)
       (simp_all add: result_def)
  from denied admitted routes not_refused show ?thesis
    by (simp add: RoleAccess_every_role RoleAccess_remove)
qed

text \<open>
  Runs: a user and a moderator try to delete and are refused; the user lists and updates
  their contacts, and the moderator's lookup by id reaches the repository.
\<close>

theorem remove_denied_to_user_and_moderator_witness:
  "route_remove_contact memory_repository (request_of alice [carol]) 1
     = (Inl AuthorizationFailure, [carol], [])
   \<and> route_remove_contact memory_repository (request_of mallory [carol]) 1
     = (Inl AuthorizationFailure, [carol], [])
   \<and> RoleAccess allowed_operation_remove root
   \<and> RoleAccess allowed_operation_get alice
   \<and> RoleAccess allowed_operation_create mallory
   \<and> RoleAccess allowed_operation_update alice
   \<and> route_get_contacts memory_repository (request_of alice [carol]) None None None
     = (Inr \<lparr>status_code = 200, content = Some [carol]\<rparr>, [carol], [Call_get_contacts alice])
   \<and> route_get_contact_by_id memory_repository (request_of mallory [carol]) 1
     = (Inl (HTTPException 404 ''Not Found''), [carol], [Call_get_contact_by_id 1 mallory])
   \<and> route_update_contact memory_repository (request_of alice [carol]) rename 1
     = (Inr \<lparr>status_code = 200, content = Some (carol\<lparr>c_lastname := ''X''\<rparr>)\<rparr>,
        [carol\<lparr>c_lastname := ''X''\<rparr>], [Call_update_contact rename 1 alice])"
proof -
  have alice_in: "get_current_user (request_of alice [carol]) = Some alice
      \<and> RateLimiter (request_of alice [carol]) 2 5"
    and mallory_in: "get_current_user (request_of mallory [carol]) = Some mallory
      \<and> RateLimiter (request_of mallory [carol]) 2 5"
    by (simp_all add: request_of_def)
  have one: "(1::int) \<le> 1" by simp
  have listed: "get_contacts memory_repository [carol] None None None alice
                  = (Inr [carol], [carol], [Call_get_contacts alice])"
    by (simp add: get_contacts_def get_contacts_lookup_def truthy_def memory_repository_def
        owned_by_def carol_def alice_def)
  have looked: "get_contact_by_id memory_repository 1 [carol] mallory
                  = (Inl (HTTPException 404 ''Not Found''), [carol], [Call_get_contact_by_id 1 mallory])"
    by (simp add: get_contact_by_id_def memory_repository_def owned_by_def carol_def mallory_def)
  have updated: "update_contact memory_repository rename 1 [carol] alice
                  = (Inr (carol\<lparr>c_lastname := ''X''\<rparr>), [carol\<lparr>c_lastname := ''X''\<rparr>],
                     [Call_update_contact rename 1 alice])"
    by (simp add: update_contact_def memory_repository_def owned_by_def carol_def alice_def
        rename_def Let_def)
  have roles: "role alice = user" "role mallory = moderator" "role root = admin"
    by (simp_all add: alice_def mallory_def root_def)
  note a = remove_denied_to_user_and_moderator [of alice "request_of alice [carol]"
      memory_repository 1 None None None 7 erin rename]
  note m = remove_denied_to_user_and_moderator [of mallory "request_of mallory [carol]"
      memory_repository 1 None None None 7 erin rename]
  note r = remove_denied_to_user_and_moderator [of root "request_of root [carol]"
      memory_repository 1 None None None 7 erin rename]
  from a roles alice_in one
  have a1: "route_remove_contact memory_repository (request_of alice [carol]) 1
              = (Inl AuthorizationFailure, [carol], [])"
    and a2: "RoleAccess allowed_operation_get alice"
    and a3: "RoleAccess allowed_operation_update alice"
    and a4: "route_get_contacts memory_repository (request_of alice [carol]) None None None
              = respond None (get_contacts memory_repository [carol] None None None alice)"
    and a5: "route_update_contact memory_repository (request_of alice [carol]) rename 1
              = respond None (update_contact memory_repository rename 1 [carol] alice)"
    by (simp_all add: get_db_request_of)
  from m roles mallory_in one
  have m1: "route_remove_contact memory_repository (request_of mallory [carol]) 1
              = (Inl AuthorizationFailure, [carol], [])"
    and m2: "RoleAccess allowed_operation_create mallory"
    and m3: "route_get_contact_by_id memory_repository (request_of mallory [carol]) 1
              = respond None (get_contact_by_id memory_repository 1 [carol] mallory)"
    by (simp_all add: get_db_request_of)
  from r roles
  have r1: "RoleAccess allowed_operation_remove root"
    by simp
  from a1 a2 a3 m1 m2 r1 show ?thesis
    by (simp add: a4 a5 m3 listed looked updated respond_200 respond_Inl)
qed

text \<open>
  Claim C6. For every caller and every \<^verbatim>\<open>contact_id\<close>, the repository call of the
  delete handler receives the contact identifier and the session only: the handler's
  outcome is the same for any two callers, and the one call it makes carries no
  identity. Every repository call of the five other handlers carries the caller.
\<close>

theorem remove_contact_call_without_identity:
  "remove_contact repo contact_id db current_user = remove_contact repo contact_id db other_user
   \<and> calls (remove_contact repo contact_id db current_user) = [Call_remove_contact contact_id]
   \<and> map call_user (calls (remove_contact repo contact_id db current_user)) = [None]
   \<and> map call_user (calls (get_contacts repo db firstname lastname email current_user))
       = [Some current_user]
   \<and> map call_user (calls (get_contacts_by_days repo days db current_user)) = [Some current_user]
   \<and> map call_user (calls (get_contact_by_id repo contact_id db current_user)) = [Some current_user]
   \<and> set (map call_user (calls (create_contact repo body db current_user))) = {Some current_user}
   \<and> map call_user (calls (update_contact repo ubody contact_id db current_user))
       = [Some current_user]"
proof -
  have same: "remove_contact repo contact_id db current_user
                = remove_contact repo contact_id db other_user"
    by (simp add: remove_contact_def)
  have created: "set (map call_user (calls (create_contact repo body db current_user)))
                   = {Some current_user}"
    by (simp add: calls_create_contact split: option.splits)
  from same created show ?thesis
    by (simp add: calls_remove_contact calls_get_contacts calls_get_contacts_by_days
        calls_get_contact_by_id calls_update_contact)
qed

text \<open>A run: an administrator deletes a contact owned by another user, and the outcome is the one any caller would get; the lookup by id, in contrast, depends on the caller.\<close>

theorem remove_contact_call_without_identity_witness:
  "route_remove_contact memory_repository (request_of root [carol, dave]) 1
     = (Inr \<lparr>status_code = 204, content = None\<rparr>, [dave], [Call_remove_contact 1])
   \<and> c_owner carol \<noteq> user_id root
   \<and> remove_contact memory_repository 1 [carol, dave] root
       = remove_contact memory_repository 1 [carol, dave] alice
   \<and> get_contact_by_id memory_repository 1 [carol, dave] root
       \<noteq> get_contact_by_id memory_repository 1 [carol, dave] alice"
proof -
  have a: "route_remove_contact memory_repository (request_of root [carol, dave]) 1
     = (Inr \<lparr>status_code = 204, content = None\<rparr>, [dave], [Call_remove_contact 1])"
    by (simp add: route_remove_contact_def dependencies_admin Path_ge_def remove_contact_def
        respond_204 memory_repository_def get_db_request_of carol_def dave_def)
  have b: "c_owner carol \<noteq> user_id root"
    by (simp add: carol_def root_def)
  have c: "get_contact_by_id memory_repository 1 [carol, dave] root
       \<noteq> get_contact_by_id memory_repository 1 [carol, dave] alice"
    by (simp add: get_contact_by_id_def memory_repository_def owned_by_def carol_def dave_def
        root_def alice_def)
  from a b c remove_contact_call_without_identity [of memory_repository 1 "[carol, dave]" root alice]
  show ?thesis by simp
qed




text \<open>
  Claim C8. In the get-by-id, update and delete operations, a \<^verbatim>\<open>contact_id\<close> below 1
  never reaches the handler: no repository call is made, the session is untouched, the
  request fails, the failure is not Not-Found, and for a caller the dependencies admit it
  is the validation failure.
\<close>

theorem contact_id_below_one_fails_validation:
  assumes "contact_id < 1"
  shows "(calls (route_get_contact_by_id repo req contact_id) = []
          \<and> session (route_get_contact_by_id repo req contact_id) = get_db req
          \<and> isl (result (route_get_contact_by_id repo req contact_id))
          \<and> \<not> is_not_found (result (route_get_contact_by_id repo req contact_id))
          \<and> (dependencies allowed_operation_get 2 5 req = Inr current_user
                \<longrightarrow> result (route_get_contact_by_id repo req contact_id) = Inl ValidationFailure))
       \<and> (calls (route_update_contact repo req body contact_id) = []
          \<and> session (route_update_contact repo req body contact_id) = get_db req
          \<and> isl (result (route_update_contact repo req body contact_id))
          \<and> \<not> is_not_found (result (route_update_contact repo req body contact_id))
          \<and> (dependencies allowed_operation_update 2 5 req = Inr current_user
                \<longrightarrow> result (route_update_contact repo req body contact_id) = Inl ValidationFailure))
       \<and> (calls (route_remove_contact repo req contact_id) = []
          \<and> session (route_remove_contact repo req contact_id) = get_db req
          \<and> isl (result (route_remove_contact repo req contact_id))
          \<and> \<not> is_not_found (result (route_remove_contact repo req contact_id))
          \<and> (dependencies allowed_operation_remove 2 5 req = Inr current_user
                \<longrightarrow> result (route_remove_contact repo req contact_id) = Inl ValidationFailure))"
  using gate_outcome [OF route_get_contact_by_id_rejected [OF assms]]
    gate_outcome [OF route_update_contact_rejected [OF assms]]
    gate_outcome [OF route_remove_contact_rejected [OF assms]]
  by blast

text \<open>Runs with the identifiers 0 and -4.\<close>

theorem contact_id_below_one_fails_validation_witness:
  "route_get_contact_by_id memory_repository (request_of root [carol, dave]) 0
     = (Inl ValidationFailure, [carol, dave], [])
   \<and> route_update_contact memory_repository (request_of root [carol, dave]) rename (- 4)
     = (Inl ValidationFailure, [carol, dave], [])
   \<and> route_remove_contact memory_repository (request_of root [carol, dave]) 0
     = (Inl ValidationFailure, [carol, dave], [])"
proof -
  have zero: "(0::int) < 1" and neg: "(- 4::int) < 1"
    by simp_all
  have a: "route_get_contact_by_id memory_repository (request_of root [carol, dave]) 0
     = (Inl ValidationFailure, [carol, dave], [])"
    using contact_id_below_one_fails_validation [OF zero,
        of memory_repository "request_of root [carol, dave]" root rename]
      dependencies_admin_get [of "[carol, dave]"]
    by (simp add: prod_eq_iff result_def session_def calls_def get_db_request_of)
  have b: "route_update_contact memory_repository (request_of root [carol, dave]) rename (- 4)
     = (Inl ValidationFailure, [carol, dave], [])"
    using contact_id_below_one_fails_validation [OF neg,
        of memory_repository "request_of root [carol, dave]" root rename]
      dependencies_admin_update [of "[carol, dave]"]
    by (simp add: prod_eq_iff result_def session_def calls_def get_db_request_of)
  have c: "route_remove_contact memory_repository (request_of root [carol, dave]) 0
     = (Inl ValidationFailure, [carol, dave], [])"
    using contact_id_below_one_fails_validation [OF zero,
        of memory_repository "request_of root [carol, dave]" root rename]
      dependencies_admin [of "[carol, dave]"]
    by (simp add: prod_eq_iff result_def session_def calls_def get_db_request_of)
  from a b c show ?thesis by simp
qed

text \<open>
  Claim C9. Every one of the six routes passes the quota of 2 invocations per 5 seconds
  to the rate limiter. For three requests of one identity to one route at the times
  \<open>t1 \<le> t2 \<le> t3 < t1 + 5\<close>: when the limiter has logged no invocation of that
  identity and route in the 5 seconds before the first, it allows the first two; and when
  it has allowed the first two, it refuses the third, so that each of the six routes ends
  in the rate-limit failure before its handler runs, with no repository call and the
  session untouched (the delete route ends in the authorization failure instead for a
  caller who is not an administrator, as it does before the limiter is asked).
\<close>

theorem third_request_within_window_is_refused:
  assumes order: "t1 \<le> t2" "t2 \<le> t3" "t3 < t1 + 5"
  shows "(window_count log (user_id u, rt) 5 t1 = 0
            \<longrightarrow> limiter_allows log (user_id u, rt) 2 5 t1
              \<and> limiter_allows (limiter_hit log (user_id u, rt) 2 5 t1) (user_id u, rt) 2 5 t2)
       \<and> (limiter_allows log (user_id u, rt) 2 5 t1
          \<and> limiter_allows (limiter_hit log (user_id u, rt) 2 5 t1) (user_id u, rt) 2 5 t2
            \<longrightarrow> \<not> RateLimiter (third_request log rt u t1 t2 t3 db) 2 5
              \<and> route_get_contacts repo (third_request log rt u t1 t2 t3 db)
                    firstname lastname email
                  = (Inl RateLimitFailure, db, [])
              \<and> route_get_contacts_by_days repo (third_request log rt u t1 t2 t3 db) days
                  = (Inl RateLimitFailure, db, [])
              \<and> route_get_contact_by_id repo (third_request log rt u t1 t2 t3 db) contact_id
                  = (Inl RateLimitFailure, db, [])
              \<and> route_create_contact repo (third_request log rt u t1 t2 t3 db) body
                  = (Inl RateLimitFailure, db, [])
              \<and> route_update_contact repo (third_request log rt u t1 t2 t3 db) ubody contact_id
                  = (Inl RateLimitFailure, db, [])
              \<and> route_remove_contact repo (third_request log rt u t1 t2 t3 db) contact_id
                  = (if role u = admin then (Inl RateLimitFailure, db, [])
                     else (Inl AuthorizationFailure, db, [])))"
proof -
  let ?req = "third_request log rt u t1 t2 t3 db"
  have fresh: "limiter_allows log (user_id u, rt) 2 5 t1
      \<and> limiter_allows (limiter_hit log (user_id u, rt) 2 5 t1) (user_id u, rt) 2 5 t2"
    if "window_count log (user_id u, rt) 5 t1 = 0"
    using fresh_admits_two [OF that order(1)] order by simp
  have refused: "\<not> RateLimiter ?req 2 5"
    if "limiter_allows log (user_id u, rt) 2 5 t1"
      and "limiter_allows (limiter_hit log (user_id u, rt) 2 5 t1) (user_id u, rt) 2 5 t2"
    using third_refused [OF order that] by (simp add: RateLimiter_third_request)
  have routes: "route_get_contacts repo ?req firstname lastname email = (Inl RateLimitFailure, db, [])"
    "route_get_contacts_by_days repo ?req days = (Inl RateLimitFailure, db, [])"
    "route_get_contact_by_id repo ?req contact_id = (Inl RateLimitFailure, db, [])"
    "route_create_contact repo ?req body = (Inl RateLimitFailure, db, [])"
    "route_update_contact repo ?req ubody contact_id = (Inl RateLimitFailure, db, [])"
    "route_remove_contact repo ?req contact_id
       = (if role u = admin then (Inl RateLimitFailure, db, [])
          else (Inl AuthorizationFailure, db, []))"
    if "\<not> RateLimiter ?req 2 5"
    using dependencies_rate_limited [OF get_current_user_third_request that]
    by (simp_all add: route_get_contacts_def route_get_contacts_by_days_def
        route_get_contact_by_id_def route_create_contact_def route_update_contact_def
        route_remove_contact_def RoleAccess_every_role RoleAccess_remove get_db_third_request)
  from fresh refused routes show ?thesis by blast
qed

text \<open>
  Runs from an empty log, with requests at the seconds 10, 12 and 14: the first is
  served, the third is refused on each of the six routes; a third request at second 15
  would be allowed.
\<close>

theorem third_request_within_window_is_refused_witness:
  "route_get_contacts memory_repository
       (request_at [] Route_get_contacts 10 root [carol, dave]) None None None
     = (Inr \<lparr>status_code = 200, content = Some [dave]\<rparr>, [carol, dave], [Call_get_contacts root])
   \<and> route_get_contacts memory_repository
       (third_request [] Route_get_contacts root 10 12 14 [carol, dave]) None None None
     = (Inl RateLimitFailure, [carol, dave], [])
   \<and> route_get_contacts_by_days memory_repository
       (third_request [] Route_get_contacts_by_days root 10 12 14 [carol, dave]) 7
     = (Inl RateLimitFailure, [carol, dave], [])
   \<and> route_get_contact_by_id memory_repository
       (third_request [] Route_get_contact_by_id root 10 12 14 [carol, dave]) 2
     = (Inl RateLimitFailure, [carol, dave], [])
   \<and> route_create_contact memory_repository
       (third_request [] Route_create_contact root 10 12 14 [carol, dave]) erin
     = (Inl RateLimitFailure, [carol, dave], [])
   \<and> route_update_contact memory_repository
       (third_request [] Route_update_contact root 10 12 14 [carol, dave]) rename 2
     = (Inl RateLimitFailure, [carol, dave], [])
   \<and> route_remove_contact memory_repository
       (third_request [] Route_remove_contact root 10 12 14 [carol, dave]) 2
     = (Inl RateLimitFailure, [carol, dave], [])
   \<and> RateLimiter (third_request [] Route_get_contacts root 10 12 15 [carol, dave]) 2 5"
proof -
  have order: "(10::nat) \<le> 12" "(12::nat) \<le> 14" "(14::nat) < 10 + 5"
    by simp_all
  have fresh: "window_count [] (user_id root, rt) 5 10 = 0" for rt
    by (simp add: window_count_def)
  have served: "route_get_contacts memory_repository
       (request_at [] Route_get_contacts 10 root [carol, dave]) None None None
     = (Inr \<lparr>status_code = 200, content = Some [dave]\<rparr>, [carol, dave], [Call_get_contacts root])"
    by (simp add: route_get_contacts_def dependencies_def request_at_def limiter_allows_def
        window_count_def RoleAccess_every_role get_contacts_def get_contacts_lookup_def
        truthy_def memory_repository_def owned_by_def carol_def dave_def root_def respond_200)
  have later: "RateLimiter (third_request [] Route_get_contacts root 10 12 15 [carol, dave]) 2 5"
    by (simp add: RateLimiter_third_request limiter_hit_def limiter_allows_def window_count_def)
  have admin: "role root = admin"
    by (simp add: root_def)
  note third = third_request_within_window_is_refused [OF order, of "[]" root _ "[carol, dave]"
      memory_repository None None None 7 2 erin rename]
  from third [of Route_get_contacts] third [of Route_get_contacts_by_days]
    third [of Route_get_contact_by_id] third [of Route_create_contact]
    third [of Route_update_contact] third [of Route_remove_contact]
    fresh admin served later
  show ?thesis by simp
qed

text \<open>
  Claim C10. In the list-by-recency operation, \<^verbatim>\<open>days\<close> is any integer: the route
  never ends in a validation failure, and for a caller the dependencies admit the value
  of \<^verbatim>\<open>days\<close>, negative or not, is the one the repository's recency lookup is called
  with: the outcome of the route is the outcome of that call, 404 when it yields
  \<^verbatim>\<open>None\<close> and the list it yields otherwise.
\<close>

theorem days_accepts_every_integer:
  "result (route_get_contacts_by_days repo req days) \<noteq> Inl ValidationFailure
   \<and> (dependencies allowed_operation_get 2 5 req = Inr current_user
        \<longrightarrow> calls (route_get_contacts_by_days repo req days)
              = [Call_contacts_per_days days current_user]
          \<and> route_get_contacts_by_days repo req days
              = respond None (get_contacts_by_days repo days (get_db req) current_user)
          \<and> route_get_contacts_by_days repo req days
              = (case repository_contacts_per_days repo days (get_db req) current_user of
                   (None, db') \<Rightarrow>
                     (Inl (HTTPException 404 ''Not Found''), db',
                      [Call_contacts_per_days days current_user])
                 | (Some cs, db') \<Rightarrow>
                     (Inr \<lparr>status_code = 200, content = Some cs\<rparr>, db',
                      [Call_contacts_per_days days current_user])))"
proof -
  have first: "result (route_get_contacts_by_days repo req days) \<noteq> Inl ValidationFailure"
  proof (cases "dependencies allowed_operation_get 2 5 req")
    case (Inl e)
    with dependencies_not_validation [of allowed_operation_get 2 5 req]
    show ?thesis by (simp add: route_get_contacts_by_days_def result_def)
  next
    case (Inr u)
    with result_respond_not_validation [OF result_get_contacts_by_days_not_validation]
    show ?thesis by (simp add: route_get_contacts_by_days_def)
  qed
  have real: "respond None (get_contacts_by_days repo days db current_user)
      = (case repository_contacts_per_days repo days db current_user of
           (None, db') \<Rightarrow>
             (Inl (HTTPException 404 ''Not Found''), db', [Call_contacts_per_days days current_user])
         | (Some cs, db') \<Rightarrow>
             (Inr \<lparr>status_code = 200, content = Some cs\<rparr>, db',
              [Call_contacts_per_days days current_user]))" for db
    by (simp add: get_contacts_by_days_def respond_Inl respond_200 Let_def
        split: prod.splits option.splits)
  have route: "route_get_contacts_by_days repo req days
                 = respond None (get_contacts_by_days repo days (get_db req) current_user)"
    if "dependencies allowed_operation_get 2 5 req = Inr current_user"
    using that by (simp add: route_get_contacts_by_days_def)
  have trace: "calls (respond None (get_contacts_by_days repo days (get_db req) current_user))
                 = [Call_contacts_per_days days current_user]"
    by (simp add: calls_respond calls_get_contacts_by_days)
  show ?thesis
  proof (intro conjI impI)
    show "result (route_get_contacts_by_days repo req days) \<noteq> Inl ValidationFailure"
      by (rule first)
  next
    assume "dependencies allowed_operation_get 2 5 req = Inr current_user"
    then show "calls (route_get_contacts_by_days repo req days)
                 = [Call_contacts_per_days days current_user]"
      by (simp only: route trace)
  next
    assume "dependencies allowed_operation_get 2 5 req = Inr current_user"
    then show "route_get_contacts_by_days repo req days
                 = respond None (get_contacts_by_days repo days (get_db req) current_user)"
      by (rule route)
  next
    assume "dependencies allowed_operation_get 2 5 req = Inr current_user"
    then show "route_get_contacts_by_days repo req days
      = (case repository_contacts_per_days repo days (get_db req) current_user of
           (None, db') \<Rightarrow>
             (Inl (HTTPException 404 ''Not Found''), db', [Call_contacts_per_days days current_user])
         | (Some cs, db') \<Rightarrow>
             (Inr \<lparr>status_code = 200, content = Some cs\<rparr>, db',
              [Call_contacts_per_days days current_user]))"
      by (simp only: route real)
  qed
qed

text \<open>
  Runs on a repository whose recency lookup yields \<^verbatim>\<open>None\<close> for a negative number of
  days: \<^verbatim>\<open>days = -3\<close> reaches the lookup and ends in its 404, \<^verbatim>\<open>days = 7\<close> lists the
  caller's contacts, and the identifier -3 on the get-by-id route fails validation.
\<close>

theorem days_accepts_every_integer_witness:
  "route_get_contacts_by_days strict_days_repository (request_of alice [carol, dave]) (- 3)
     = (Inl (HTTPException 404 ''Not Found''), [carol, dave], [Call_contacts_per_days (- 3) alice])
   \<and> route_get_contacts_by_days strict_days_repository (request_of alice [carol, dave]) 7
     = (Inr \<lparr>status_code = 200, content = Some [carol]\<rparr>, [carol, dave],
        [Call_contacts_per_days 7 alice])
   \<and> route_get_contact_by_id strict_days_repository (request_of alice [carol, dave]) (- 3)
     = (Inl ValidationFailure, [carol, dave], [])"
proof -
  have negative: "repository_contacts_per_days strict_days_repository (- 3) [carol, dave] alice
                    = (None, [carol, dave])"
    by (simp add: strict_days_repository_def)
  have week: "repository_contacts_per_days strict_days_repository 7 [carol, dave] alice
                = (Some [carol], [carol, dave])"
    by (simp add: strict_days_repository_def owned_by_def carol_def dave_def alice_def)
  have by_id: "route_get_contact_by_id strict_days_repository (request_of alice [carol, dave]) (- 3)
     = (Inl ValidationFailure, [carol, dave], [])"
    by (simp add: route_get_contact_by_id_def dependencies_alice_get Path_ge_def get_db_request_of)
  note neg = days_accepts_every_integer [of strict_days_repository
      "request_of alice [carol, dave]" "- 3" alice]
  note pos = days_accepts_every_integer [of strict_days_repository
      "request_of alice [carol, dave]" 7 alice]
  from neg dependencies_alice_get [of "[carol, dave]"]
  have a: "route_get_contacts_by_days strict_days_repository (request_of alice [carol, dave]) (- 3)
      = (case repository_contacts_per_days strict_days_repository (- 3)
                (get_db (request_of alice [carol, dave])) alice of
           (None, db') \<Rightarrow>
             (Inl (HTTPException 404 ''Not Found''), db', [Call_contacts_per_days (- 3) alice])
         | (Some cs, db') \<Rightarrow>
             (Inr \<lparr>status_code = 200, content = Some cs\<rparr>, db',
              [Call_contacts_per_days (- 3) alice]))"
    by blast
  from pos dependencies_alice_get [of "[carol, dave]"]
  have b: "route_get_contacts_by_days strict_days_repository (request_of alice [carol, dave]) 7
      = (case repository_contacts_per_days strict_days_repository 7
                (get_db (request_of alice [carol, dave])) alice of
           (None, db') \<Rightarrow>
             (Inl (HTTPException 404 ''Not Found''), db', [Call_contacts_per_days 7 alice])
         | (Some cs, db') \<Rightarrow>
             (Inr \<lparr>status_code = 200, content = Some cs\<rparr>, db',
              [Call_contacts_per_days 7 alice]))"
    by blast
  show ?thesis
    by (simp add: a b by_id get_db_request_of negative week)
qed

end
